theory Spec2Isabelle
  imports Complex_Main "HOL-Library.Word"
begin

section \<open>The finite element base class of \<open>fe/fe.h\<close>\<close>

text \<open>
  The development embeds the index queries that \<open>fe.h\<close> defines inline for the class
  template \<open>FiniteElement<dim>\<close>. An \<open>unsigned int\<close> is a 32-bit word, a
  \<open>std::vector\<close> is a list, a \<open>std::pair\<close> is a pair. The queries are \<open>const\<close>
  member functions: each one is a function of the element object and its arguments and
  returns a value only. An \<open>Assert\<close> whose condition fails is the left summand of the
  result, carrying the exception object named in the \<open>Assert\<close> (the behaviour of the
  library compiled with assertions).
\<close>

subsection \<open>Data\<close>

type_synonym uint = "32 word"

text \<open>
  The exceptions the queries name. \<open>ExcIndexRange\<close> carries the index, the lower bound
  and the upper bound. \<open>OutOfBoundsRead\<close> is not an exception of the library: it stands
  for reading a \<open>std::vector\<close> past its end through \<open>operator[]\<close>, which C++ leaves
  undefined.
\<close>

datatype exc =
    ExcIndexRange nat nat nat
  | ExcShapeFunctionNotPrimitive uint
  | ExcComponentIndexInvalid uint uint
  | ExcProjectionVoid
  | ExcEmbeddingVoid
  | ExcConstraintsVoid
  | OutOfBoundsRead

text \<open>
  The members of the base class \<open>FiniteElementData<dim>\<close> that the queries read,
  together with the template parameter \<open>dim\<close>.
\<close>

record FiniteElementData =
  dim :: nat
  dofs_per_vertex :: uint
  dofs_per_line :: uint
  dofs_per_quad :: uint
  dofs_per_face :: uint
  dofs_per_cell :: uint
  components :: uint

text \<open>
  The constants of \<open>GeometryInfo<dim>\<close> that \<open>fe.h\<close> uses. Their declaration is in
  another header, so the functions below take them as a parameter, indexed by the
  dimension.
\<close>

record GeometryInfo =
  vertices_per_cell :: uint
  vertices_per_face :: uint
  lines_per_cell :: uint
  lines_per_face :: uint
  children_per_cell :: nat

text \<open>A \<open>FullMatrix\<close>: its number of rows \<open>m()\<close>, its number of columns \<open>n()\<close> and its entries, row by row.\<close>

record 'v FullMatrix =
  n_rows :: nat
  n_cols :: nat
  entries :: "'v list"

record 'v FiniteElement = FiniteElementData +
  restriction :: "'v FullMatrix list"
  prolongation :: "'v FullMatrix list"
  interface_constraints :: "'v FullMatrix"
  system_to_component_table :: "(uint \<times> uint) list"
  face_system_to_component_table :: "(uint \<times> uint) list"
  system_to_base_table :: "((uint \<times> uint) \<times> uint) list"
  face_system_to_base_table :: "((uint \<times> uint) \<times> uint) list"
  component_to_base_table :: "(uint \<times> uint) list"
  restriction_is_additive_flags :: "bool list"
  nonzero_components :: "bool list list"
  n_nonzero_components_table :: "uint list"
  cached_primitivity :: bool

subsection \<open>Reading a vector\<close>

definition vec_at :: "'a list \<Rightarrow> uint \<Rightarrow> exc + 'a" where
  "vec_at v i = (if unat i < length v then Inr (v ! unat i) else Inl OutOfBoundsRead)"

text \<open>
  \<open>std::find\<close> over a whole vector, as the distance of the returned iterator from
  \<open>begin()\<close>: the position of the first element equal to the value, and the length of
  the vector (the iterator \<open>end()\<close>) when there is none.
\<close>

fun std_find :: "'a list \<Rightarrow> 'a \<Rightarrow> nat" where
  "std_find [] v = 0"
| "std_find (x # xs) v = (if x = v then 0 else Suc (std_find xs v))"

subsection \<open>The non-primitivity queries\<close>

definition get_nonzero_components :: "('v, 'z) FiniteElement_scheme \<Rightarrow> uint \<Rightarrow> exc + bool list" where
  "get_nonzero_components fe i =
     (if i < dofs_per_cell fe then vec_at (nonzero_components fe) i
      else Inl (ExcIndexRange (unat i) 0 (unat (dofs_per_cell fe))))"

definition n_nonzero_components :: "('v, 'z) FiniteElement_scheme \<Rightarrow> uint \<Rightarrow> exc + uint" where
  "n_nonzero_components fe i =
     (if i < dofs_per_cell fe then vec_at (n_nonzero_components_table fe) i
      else Inl (ExcIndexRange (unat i) 0 (unat (dofs_per_cell fe))))"

definition is_primitive :: "('v, 'z) FiniteElement_scheme \<Rightarrow> uint \<Rightarrow> exc + bool" where
  "is_primitive fe i =
     (if i < dofs_per_cell fe
      then (case vec_at (n_nonzero_components_table fe) i of
              Inl e \<Rightarrow> Inl e
            | Inr k \<Rightarrow> Inr (k = 1))
      else Inl (ExcIndexRange (unat i) 0 (unat (dofs_per_cell fe))))"

text \<open>The overload without an argument: the whole element.\<close>

definition is_primitive_fe :: "('v, 'z) FiniteElement_scheme \<Rightarrow> bool" where
  "is_primitive_fe fe = cached_primitivity fe"

definition restriction_is_additive :: "('v, 'z) FiniteElement_scheme \<Rightarrow> uint \<Rightarrow> exc + bool" where
  "restriction_is_additive fe index =
     (if index < dofs_per_cell fe then vec_at (restriction_is_additive_flags fe) index
      else Inl (ExcIndexRange (unat index) 0 (unat (dofs_per_cell fe))))"

subsection \<open>The index composition queries\<close>

definition system_to_component_index ::
  "('v, 'z) FiniteElement_scheme \<Rightarrow> uint \<Rightarrow> exc + (uint \<times> uint)" where
  "system_to_component_index fe index =
     (if unat index < length (system_to_component_table fe)
      then (case is_primitive fe index of
              Inl e \<Rightarrow> Inl e
            | Inr p \<Rightarrow>
                if p then Inr (system_to_component_table fe ! unat index)
                else Inl (ExcShapeFunctionNotPrimitive index))
      else Inl (ExcIndexRange (unat index) 0 (length (system_to_component_table fe))))"


text \<open>
  The cell index whose primitivity \<open>face_system_to_component_index\<close> checks for a face
  index, in two and in three dimensions: the argument of \<open>is_primitive\<close> in the second
  and in the third disjunct of its \<open>Assert\<close>. The arithmetic is that of
  \<open>unsigned int\<close>.
\<close>

definition face_to_cell_index_2d ::
  "(nat \<Rightarrow> GeometryInfo) \<Rightarrow> ('z) FiniteElementData_scheme \<Rightarrow> uint \<Rightarrow> uint" where
  "face_to_cell_index_2d G fe index =
     (if index < vertices_per_face (G 2) * dofs_per_vertex fe
      then index
      else vertices_per_cell (G 2) * dofs_per_vertex fe
           + (index - vertices_per_face (G 2) * dofs_per_vertex fe))"

definition face_to_cell_index_3d ::
  "(nat \<Rightarrow> GeometryInfo) \<Rightarrow> ('z) FiniteElementData_scheme \<Rightarrow> uint \<Rightarrow> uint" where
  "face_to_cell_index_3d G fe index =
     (if index < vertices_per_face (G 3) * dofs_per_vertex fe
      then index
      else if index < vertices_per_face (G 3) * dofs_per_vertex fe
                      + lines_per_face (G 3) * dofs_per_line fe
      then vertices_per_cell (G 3) * dofs_per_vertex fe
           + (index - vertices_per_face (G 3) * dofs_per_vertex fe)
      else vertices_per_cell (G 3) * dofs_per_vertex fe
           + lines_per_cell (G 3) * dofs_per_line fe
           + (index - vertices_per_face (G 3) * dofs_per_vertex fe
                    - lines_per_face (G 3) * dofs_per_line fe))"

text \<open>
  The condition of the primitivity \<open>Assert\<close> of \<open>face_system_to_component_index\<close>:
  a disjunction over the three dimensions, of which only the disjunct of the element's
  own dimension calls \<open>is_primitive\<close>; in any other dimension the condition is false.
\<close>

definition face_index_is_primitive ::
  "(nat \<Rightarrow> GeometryInfo) \<Rightarrow> ('v, 'z) FiniteElement_scheme \<Rightarrow> uint \<Rightarrow> exc + bool" where
  "face_index_is_primitive G fe index =
     (if dim fe = 1 then is_primitive fe index
      else if dim fe = 2 then is_primitive fe (face_to_cell_index_2d G fe index)
      else if dim fe = 3 then is_primitive fe (face_to_cell_index_3d G fe index)
      else Inr False)"

text \<open>
  The cell index that this condition passes to \<open>is_primitive\<close> in dimension one, two
  or three.
\<close>

definition face_to_cell_index ::
  "(nat \<Rightarrow> GeometryInfo) \<Rightarrow> ('z) FiniteElementData_scheme \<Rightarrow> uint \<Rightarrow> uint" where
  "face_to_cell_index G fe index =
     (if dim fe = 1 then index
      else if dim fe = 2 then face_to_cell_index_2d G fe index
      else face_to_cell_index_3d G fe index)"

definition face_system_to_component_index ::
  "(nat \<Rightarrow> GeometryInfo) \<Rightarrow> ('v, 'z) FiniteElement_scheme \<Rightarrow> uint \<Rightarrow> exc + (uint \<times> uint)" where
  "face_system_to_component_index G fe index =
     (if unat index < length (face_system_to_component_table fe)
      then (case face_index_is_primitive G fe index of
              Inl e \<Rightarrow> Inl e
            | Inr p \<Rightarrow>
                if p then Inr (face_system_to_component_table fe ! unat index)
                else Inl (ExcShapeFunctionNotPrimitive index))
      else Inl (ExcIndexRange (unat index) 0 (length (face_system_to_component_table fe))))"

definition system_to_base_index ::
  "('v, 'z) FiniteElement_scheme \<Rightarrow> uint \<Rightarrow> exc + ((uint \<times> uint) \<times> uint)" where
  "system_to_base_index fe index =
     (if unat index < length (system_to_base_table fe)
      then Inr (system_to_base_table fe ! unat index)
      else Inl (ExcIndexRange (unat index) 0 (length (system_to_base_table fe))))"

definition face_system_to_base_index ::
  "('v, 'z) FiniteElement_scheme \<Rightarrow> uint \<Rightarrow> exc + ((uint \<times> uint) \<times> uint)" where
  "face_system_to_base_index fe index =
     (if unat index < length (face_system_to_base_table fe)
      then Inr (face_system_to_base_table fe ! unat index)
      else Inl (ExcIndexRange (unat index) 0 (length (face_system_to_base_table fe))))"

definition component_to_base ::
  "('v, 'z) FiniteElement_scheme \<Rightarrow> uint \<Rightarrow> exc + (uint \<times> uint)" where
  "component_to_base fe index =
     (if unat index < length (component_to_base_table fe)
      then Inr (component_to_base_table fe ! unat index)
      else Inl (ExcIndexRange (unat index) 0 (length (component_to_base_table fe))))"

subsection \<open>Transfer and constraint matrices\<close>

text \<open>
  Modelled from the spec: the class \<open>FullMatrix\<close> is declared outside \<open>fe.h\<close>. A
  matrix is zero-sized (empty) when it has no row or no column.
\<close>

definition FullMatrix_empty :: "'v FullMatrix \<Rightarrow> bool" where
  "FullMatrix_empty M = (n_rows M = 0 \<or> n_cols M = 0)"

text \<open>
  Modelled from the spec: resizing a matrix gives it the requested numbers of rows and
  columns and sets every entry to zero.
\<close>

definition FullMatrix_reinit :: "'v \<Rightarrow> nat \<Rightarrow> nat \<Rightarrow> 'v FullMatrix" where
  "FullMatrix_reinit zero r c = \<lparr>n_rows = r, n_cols = c, entries = replicate (r * c) zero\<rparr>"

text \<open>
  Modelled from the spec: \<open>get_restriction_matrix\<close> is declared in \<open>fe.h\<close> and defined
  outside this header. It returns the stored matrix for a child index below the number
  of children, and fails with \<open>ExcProjectionVoid\<close> when the element has left that matrix
  zero-sized. The array \<open>restriction\<close> is declared with \<open>children_per_cell\<close> elements,
  which is the length of the list here.
\<close>

definition get_restriction_matrix ::
  "('v, 'z) FiniteElement_scheme \<Rightarrow> uint \<Rightarrow> exc + 'v FullMatrix" where
  "get_restriction_matrix fe child =
     (if unat child < length (restriction fe)
      then (if FullMatrix_empty (restriction fe ! unat child) then Inl ExcProjectionVoid
            else Inr (restriction fe ! unat child))
      else Inl (ExcIndexRange (unat child) 0 (length (restriction fe))))"

text \<open>
  Modelled from the spec: \<open>get_prolongation_matrix\<close> is declared in \<open>fe.h\<close> and
  defined outside this header. It is the same accessor for the array \<open>prolongation\<close>,
  and fails with \<open>ExcEmbeddingVoid\<close>.
\<close>

definition get_prolongation_matrix ::
  "('v, 'z) FiniteElement_scheme \<Rightarrow> uint \<Rightarrow> exc + 'v FullMatrix" where
  "get_prolongation_matrix fe child =
     (if unat child < length (prolongation fe)
      then (if FullMatrix_empty (prolongation fe ! unat child) then Inl ExcEmbeddingVoid
            else Inr (prolongation fe ! unat child))
      else Inl (ExcIndexRange (unat child) 0 (length (prolongation fe))))"

text \<open>
  Modelled from the spec: \<open>constraints\<close> is declared in \<open>fe.h\<close> and defined outside
  this header. It returns the constraint matrix, and fails with \<open>ExcConstraintsVoid\<close>
  when the element has left it empty.
\<close>

definition constraints :: "('v, 'z) FiniteElement_scheme \<Rightarrow> exc + 'v FullMatrix" where
  "constraints fe =
     (if FullMatrix_empty (interface_constraints fe) then Inl ExcConstraintsVoid
      else Inr (interface_constraints fe))"

text \<open>
  Modelled from the spec: \<open>restriction_is_implemented\<close> is declared in \<open>fe.h\<close> and
  defined outside this header. It tells whether the element has populated its
  restriction matrices, so that no call of \<open>get_restriction_matrix\<close> fails with
  \<open>ExcProjectionVoid\<close>.
\<close>

definition restriction_is_implemented :: "('v, 'z) FiniteElement_scheme \<Rightarrow> bool" where
  "restriction_is_implemented fe = list_all (\<lambda>M. \<not> FullMatrix_empty M) (restriction fe)"

text \<open>
  Modelled from the spec: \<open>prolongation_is_implemented\<close> is declared in \<open>fe.h\<close> and
  defined outside this header. It is the same probe for the prolongation matrices.
\<close>

definition prolongation_is_implemented :: "('v, 'z) FiniteElement_scheme \<Rightarrow> bool" where
  "prolongation_is_implemented fe = list_all (\<lambda>M. \<not> FullMatrix_empty M) (prolongation fe)"

text \<open>
  Modelled from the spec: \<open>constraints_are_implemented\<close> is declared in \<open>fe.h\<close> and
  defined outside this header. It tells whether the constraint matrix is there.
\<close>

definition constraints_are_implemented :: "('v, 'z) FiniteElement_scheme \<Rightarrow> bool" where
  "constraints_are_implemented fe = (\<not> FullMatrix_empty (interface_constraints fe))"

text \<open>
  Modelled from the spec: \<open>interface_constraints_size\<close> is declared in \<open>fe.h\<close> and
  defined outside this header. In one dimension the matrix is 0 by 0. In two dimensions the rows
  are the degrees of freedom on the middle vertex and on the two child lines, the
  columns those on the two end vertices and on the parent line. In three dimensions the
  rows are those on the centre vertex, the 4 mid-edge vertices, the 4 inner lines, the 8
  boundary half-lines and the 4 child faces, the columns those on the 4 corner
  vertices, the 4 boundary lines and the parent face. The spec gives no size for any
  other dimension.
\<close>

definition interface_constraints_size :: "'z FiniteElementData_scheme \<Rightarrow> (uint \<times> uint) option" where
  "interface_constraints_size fe =
     (if dim fe = 1 then Some (0, 0)
      else if dim fe = 2
      then Some (dofs_per_vertex fe + 2 * dofs_per_line fe,
                 2 * dofs_per_vertex fe + dofs_per_line fe)
      else if dim fe = 3
      then Some (5 * dofs_per_vertex fe + 12 * dofs_per_line fe + 4 * dofs_per_quad fe,
                 4 * dofs_per_vertex fe + 4 * dofs_per_line fe + dofs_per_quad fe)
      else None)"

subsection \<open>Construction\<close>

text \<open>
  Modelled from the spec: \<open>compute_n_nonzero_components\<close> is declared in \<open>fe.h\<close> and
  defined outside this header. For each shape function it counts the components in which the
  shape function is non-zero.
\<close>

definition compute_n_nonzero_components :: "bool list list \<Rightarrow> uint list" where
  "compute_n_nonzero_components nz = map (\<lambda>v. of_nat (count_list v True)) nz"

text \<open>
  Modelled from the spec: the constructor of \<open>FiniteElement\<close> is declared in \<open>fe.h\<close> and
  defined outside this header. It copies the element data, the additivity flags and the non-zero
  components, computes \<open>n_nonzero_components_table\<close> and \<open>cached_primitivity\<close> from the
  latter (both are \<open>const\<close> members: no derived class changes them afterwards), fills
  the index tables with the values of an element that is not composed of others
  (component 0, base element 0, instance 0, and the index itself), and gives every
  matrix its full size. Derived classes overwrite the tables and the matrices.
\<close>

definition FiniteElement_ctor ::
  "(nat \<Rightarrow> GeometryInfo) \<Rightarrow> 'v \<Rightarrow> FiniteElementData \<Rightarrow> bool list \<Rightarrow> bool list list
     \<Rightarrow> 'v FiniteElement" where
  "FiniteElement_ctor G zero fe_data r_i_a_f nonzero_c =
     \<lparr>dim = dim fe_data,
      dofs_per_vertex = dofs_per_vertex fe_data,
      dofs_per_line = dofs_per_line fe_data,
      dofs_per_quad = dofs_per_quad fe_data,
      dofs_per_face = dofs_per_face fe_data,
      dofs_per_cell = dofs_per_cell fe_data,
      components = components fe_data,
      restriction = replicate (children_per_cell (G (dim fe_data)))
        (FullMatrix_reinit zero (unat (dofs_per_cell fe_data)) (unat (dofs_per_cell fe_data))),
      prolongation = replicate (children_per_cell (G (dim fe_data)))
        (FullMatrix_reinit zero (unat (dofs_per_cell fe_data)) (unat (dofs_per_cell fe_data))),
      interface_constraints =
        (case interface_constraints_size fe_data of
           None \<Rightarrow> FullMatrix_reinit zero 0 0
         | Some (r, c) \<Rightarrow> FullMatrix_reinit zero (unat r) (unat c)),
      system_to_component_table =
        map (\<lambda>j. (0, of_nat j)) [0 ..< unat (dofs_per_cell fe_data)],
      face_system_to_component_table =
        map (\<lambda>j. (0, of_nat j)) [0 ..< unat (dofs_per_face fe_data)],
      system_to_base_table =
        map (\<lambda>j. ((0, 0), of_nat j)) [0 ..< unat (dofs_per_cell fe_data)],
      face_system_to_base_table =
        map (\<lambda>j. ((0, 0), of_nat j)) [0 ..< unat (dofs_per_face fe_data)],
      component_to_base_table = replicate (unat (components fe_data)) (0, 0),
      restriction_is_additive_flags = r_i_a_f,
      nonzero_components = nonzero_c,
      n_nonzero_components_table = compute_n_nonzero_components nonzero_c,
      cached_primitivity = list_all (\<lambda>k. k = 1) (compute_n_nonzero_components nonzero_c)\<rparr>"

text \<open>
  Modelled from the spec: the comparison of two matrices belongs to \<open>FullMatrix\<close>, which
  is declared outside \<open>fe.h\<close>. Two matrices are equal when they have the same size and
  equal entries. The comparison of two entries, which are floating point numbers, is a
  parameter.
\<close>

definition FullMatrix_equal :: "('v \<Rightarrow> 'v \<Rightarrow> bool) \<Rightarrow> 'v FullMatrix \<Rightarrow> 'v FullMatrix \<Rightarrow> bool" where
  "FullMatrix_equal eqv A B =
     (n_rows A = n_rows B \<and> n_cols A = n_cols B \<and> list_all2 eqv (entries A) (entries B))"

text \<open>
  Modelled from the spec: the comparison of the element data belongs to
  \<open>FiniteElementData\<close>, which is declared outside \<open>fe.h\<close>. It compares the counts.
\<close>

definition FiniteElementData_equal ::
  "'y FiniteElementData_scheme \<Rightarrow> 'z FiniteElementData_scheme \<Rightarrow> bool" where
  "FiniteElementData_equal a b =
     (dim a = dim b \<and> dofs_per_vertex a = dofs_per_vertex b
      \<and> dofs_per_line a = dofs_per_line b \<and> dofs_per_quad a = dofs_per_quad b
      \<and> dofs_per_face a = dofs_per_face b \<and> dofs_per_cell a = dofs_per_cell b
      \<and> components a = components b)"

text \<open>
  Modelled from the spec: \<open>operator ==\<close> is declared in \<open>fe.h\<close> and defined outside this
  header. Its documentation in \<open>fe.h\<close> says that it also compares the constraint matrix
  and that it does not compare the arrays \<open>restriction\<close> and \<open>prolongation\<close>.
\<close>

definition FiniteElement_equal ::
  "('v \<Rightarrow> 'v \<Rightarrow> bool) \<Rightarrow> ('v, 'y) FiniteElement_scheme \<Rightarrow> ('v, 'z) FiniteElement_scheme \<Rightarrow> bool" where
  "FiniteElement_equal eqv a b =
     (FiniteElementData_equal a b
      \<and> FullMatrix_equal eqv (interface_constraints a) (interface_constraints b))"

subsection \<open>Example elements\<close>

text \<open>
  Modelled from the spec: the counts of the reference line, square and cube, which
  \<open>GeometryInfo\<close> declares outside \<open>fe.h\<close>, for the examples: a square has 4
  vertices and 4 lines and its faces are lines with 2 vertices; a cube has 8 vertices
  and 12 lines and its faces are squares; a cell has 2, 4 or 8 children.
\<close>

definition hypercube :: "nat \<Rightarrow> GeometryInfo" where
  "hypercube d =
     (if d = 1 then \<lparr>vertices_per_cell = 2, vertices_per_face = 1, lines_per_cell = 1,
                     lines_per_face = 0, children_per_cell = 2\<rparr>
      else if d = 2 then \<lparr>vertices_per_cell = 4, vertices_per_face = 2, lines_per_cell = 4,
                     lines_per_face = 1, children_per_cell = 4\<rparr>
      else \<lparr>vertices_per_cell = 8, vertices_per_face = 4, lines_per_cell = 12,
            lines_per_face = 4, children_per_cell = 8\<rparr>)"

text \<open>
  A scalar element in two dimensions with one degree of freedom on each vertex, and a
  vector-valued element in two dimensions with one degree of freedom on each line, whose
  four shape functions are non-zero in both components.
\<close>

definition q1_data :: FiniteElementData where
  "q1_data = \<lparr>dim = 2, dofs_per_vertex = 1, dofs_per_line = 0, dofs_per_quad = 0,
              dofs_per_face = 2, dofs_per_cell = 4, components = 1\<rparr>"

definition fe_q1 :: "real FiniteElement" where
  "fe_q1 = FiniteElement_ctor hypercube 0 q1_data (replicate 4 False) (replicate 4 [True])"

definition rt0_data :: FiniteElementData where
  "rt0_data = \<lparr>dim = 2, dofs_per_vertex = 0, dofs_per_line = 1, dofs_per_quad = 0,
               dofs_per_face = 1, dofs_per_cell = 4, components = 2\<rparr>"

definition fe_rt0 :: "real FiniteElement" where
  "fe_rt0 = FiniteElement_ctor hypercube 0 rt0_data (replicate 4 True) (replicate 4 [True, True])"

text \<open>
  The data of scalar elements with one degree of freedom on each vertex, line, quad and
  hex, in two and in three dimensions.
\<close>

definition q2_data_2d :: FiniteElementData where
  "q2_data_2d = \<lparr>dim = 2, dofs_per_vertex = 1, dofs_per_line = 1, dofs_per_quad = 1,
                 dofs_per_face = 3, dofs_per_cell = 9, components = 1\<rparr>"

definition q2_data_3d :: FiniteElementData where
  "q2_data_3d = \<lparr>dim = 3, dofs_per_vertex = 1, dofs_per_line = 1, dofs_per_quad = 1,
                 dofs_per_face = 9, dofs_per_cell = 27, components = 1\<rparr>"

text \<open>
  The same element after a derived class has resized its restriction matrices to zero.
\<close>

definition fe_q1_no_restriction :: "real FiniteElement" where
  "fe_q1_no_restriction = fe_q1\<lparr>restriction := replicate 4 (FullMatrix_reinit 0 0 0)\<rparr>"

section \<open>Properties\<close>

subsection \<open>The search\<close>

lemma std_find_le: "std_find xs v \<le> length xs"
  by (induction xs) auto





subsection \<open>Primitivity of one shape function\<close>

lemma is_primitive_True_iff:
  "is_primitive fe i = Inr True \<longleftrightarrow>
     i < dofs_per_cell fe \<and> unat i < length (n_nonzero_components_table fe)
     \<and> n_nonzero_components_table fe ! unat i = 1"
  by (simp add: is_primitive_def vec_at_def)

lemma is_primitive_False_iff:
  "is_primitive fe i = Inr False \<longleftrightarrow>
     i < dofs_per_cell fe \<and> unat i < length (n_nonzero_components_table fe)
     \<and> n_nonzero_components_table fe ! unat i \<noteq> 1"
  by (simp add: is_primitive_def vec_at_def)

lemma system_to_component_index_primitive:
  assumes "unat index < length (system_to_component_table fe)"
      and "is_primitive fe index = Inr True"
  shows "system_to_component_index fe index = Inr (system_to_component_table fe ! unat index)"
  using assms by (simp add: system_to_component_index_def)

lemma system_to_component_index_non_primitive:
  assumes "unat index < length (system_to_component_table fe)"
      and "is_primitive fe index = Inr False"
  shows "system_to_component_index fe index = Inl (ExcShapeFunctionNotPrimitive index)"
  using assms by (simp add: system_to_component_index_def)

lemma face_index_is_primitive_eq:
  "dim fe = 1 \<or> dim fe = 2 \<or> dim fe = 3 \<Longrightarrow>
     face_index_is_primitive G fe index = is_primitive fe (face_to_cell_index G fe index)"
  by (auto simp add: face_index_is_primitive_def face_to_cell_index_def)

subsection \<open>The example elements\<close>

lemma fe_q1_fields:
  "dim fe_q1 = 2" "dofs_per_vertex fe_q1 = 1" "dofs_per_line fe_q1 = 0"
  "dofs_per_quad fe_q1 = 0" "dofs_per_face fe_q1 = 2" "dofs_per_cell fe_q1 = 4"
  "components fe_q1 = 1"
  "system_to_component_table fe_q1 = [(0, 0), (0, 1), (0, 2), (0, 3)]"
  "face_system_to_component_table fe_q1 = [(0, 0), (0, 1)]"
  "system_to_base_table fe_q1 = [((0, 0), 0), ((0, 0), 1), ((0, 0), 2), ((0, 0), 3)]"
  "face_system_to_base_table fe_q1 = [((0, 0), 0), ((0, 0), 1)]"
  "component_to_base_table fe_q1 = [(0, 0)]"
  "restriction_is_additive_flags fe_q1 = [False, False, False, False]"
  "nonzero_components fe_q1 = [[True], [True], [True], [True]]"
  "n_nonzero_components_table fe_q1 = [1, 1, 1, 1]"
  "cached_primitivity fe_q1 = True"
  "interface_constraints fe_q1 = \<lparr>n_rows = 1, n_cols = 2, entries = [0, 0]\<rparr>"
  by code_simp+

lemma fe_rt0_fields:
  "dim fe_rt0 = 2" "dofs_per_vertex fe_rt0 = 0" "dofs_per_line fe_rt0 = 1"
  "dofs_per_quad fe_rt0 = 0" "dofs_per_face fe_rt0 = 1" "dofs_per_cell fe_rt0 = 4"
  "components fe_rt0 = 2"
  "system_to_component_table fe_rt0 = [(0, 0), (0, 1), (0, 2), (0, 3)]"
  "face_system_to_component_table fe_rt0 = [(0, 0)]"
  "system_to_base_table fe_rt0 = [((0, 0), 0), ((0, 0), 1), ((0, 0), 2), ((0, 0), 3)]"
  "face_system_to_base_table fe_rt0 = [((0, 0), 0)]"
  "component_to_base_table fe_rt0 = [(0, 0), (0, 0)]"
  "restriction_is_additive_flags fe_rt0 = [True, True, True, True]"
  "nonzero_components fe_rt0 = [[True, True], [True, True], [True, True], [True, True]]"
  "n_nonzero_components_table fe_rt0 = [2, 2, 2, 2]"
  "cached_primitivity fe_rt0 = False"
  by code_simp+

lemma hypercube_2:
  "vertices_per_cell (hypercube 2) = 4" "vertices_per_face (hypercube 2) = 2"
  "lines_per_cell (hypercube 2) = 4" "lines_per_face (hypercube 2) = 1"
  "children_per_cell (hypercube 2) = 4"
  by (simp_all add: hypercube_def)

subsection \<open>The queries that need a primitive shape function\<close>

lemma face_system_to_component_index_primitive:
  assumes "unat index < length (face_system_to_component_table fe)"
      and "face_index_is_primitive G fe index = Inr True"
  shows "face_system_to_component_index G fe index
           = Inr (face_system_to_component_table fe ! unat index)"
  using assms by (simp add: face_system_to_component_index_def)

lemma face_system_to_component_index_non_primitive:
  assumes "unat index < length (face_system_to_component_table fe)"
      and "face_index_is_primitive G fe index = Inr False"
  shows "face_system_to_component_index G fe index = Inl (ExcShapeFunctionNotPrimitive index)"
  using assms by (simp add: face_system_to_component_index_def)

lemma face_to_cell_examples:
  "face_to_cell_index hypercube fe_rt0 0 = 0"
  "face_to_cell_index hypercube fe_q1 1 = 1"
  by (simp_all add: face_to_cell_index_def face_to_cell_index_2d_def fe_rt0_fields fe_q1_fields
      hypercube_2)

text \<open>
  Claim C4. For an index \<open>i\<close> within \<open>system_to_component_table\<close> for which
  \<open>is_primitive\<close> returns false (so \<open>i\<close> is below \<open>dofs_per_cell\<close> and its shape
  function is non-zero in a number of components other than one),
  \<open>system_to_component_index\<close> signals \<open>ExcShapeFunctionNotPrimitive\<close> and returns no
  value; where \<open>is_primitive\<close> returns true it returns the table entry. In dimension
  one, two or three \<open>face_system_to_component_index\<close> does the same for a face index
  \<open>f\<close> within \<open>face_system_to_component_table\<close>, according to the primitivity of the
  cell index that corresponds to \<open>f\<close>.
\<close>

theorem primitive_only_queries:
  "(unat i < length (system_to_component_table fe) \<and> is_primitive fe i = Inr False
      \<longrightarrow> system_to_component_index fe i = Inl (ExcShapeFunctionNotPrimitive i))
   \<and> (unat i < length (system_to_component_table fe) \<and> is_primitive fe i = Inr True
      \<longrightarrow> system_to_component_index fe i = Inr (system_to_component_table fe ! unat i))
   \<and> ((dim fe = 1 \<or> dim fe = 2 \<or> dim fe = 3)
       \<and> unat f < length (face_system_to_component_table fe)
       \<and> is_primitive fe (face_to_cell_index G fe f) = Inr False
      \<longrightarrow> face_system_to_component_index G fe f = Inl (ExcShapeFunctionNotPrimitive f))
   \<and> ((dim fe = 1 \<or> dim fe = 2 \<or> dim fe = 3)
       \<and> unat f < length (face_system_to_component_table fe)
       \<and> is_primitive fe (face_to_cell_index G fe f) = Inr True
      \<longrightarrow> face_system_to_component_index G fe f
            = Inr (face_system_to_component_table fe ! unat f))"
  by (simp add: system_to_component_index_primitive system_to_component_index_non_primitive
      face_system_to_component_index_primitive face_system_to_component_index_non_primitive
      face_index_is_primitive_eq)

text \<open>
  The four cases on the examples: the vector-valued element has no primitive shape
  function, the scalar element has no other.
\<close>

theorem primitive_only_queries_witness:
  "system_to_component_index fe_rt0 2 = Inl (ExcShapeFunctionNotPrimitive 2)
   \<and> system_to_component_index fe_q1 2 = Inr (0, 2)
   \<and> face_system_to_component_index hypercube fe_rt0 0 = Inl (ExcShapeFunctionNotPrimitive 0)
   \<and> face_system_to_component_index hypercube fe_q1 1 = Inr (0, 1)"
  using primitive_only_queries [of 2 fe_rt0 0 hypercube]
    primitive_only_queries [of 2 fe_q1 1 hypercube]
  by (simp add: is_primitive_True_iff is_primitive_False_iff face_to_cell_examples
      fe_rt0_fields fe_q1_fields)

subsection \<open>The constructed element\<close>

lemma ctor_tables:
  "system_to_component_table (FiniteElement_ctor G z d r nzc)
     = map (\<lambda>j. (0, of_nat j)) [0 ..< unat (dofs_per_cell d)]"
  "face_system_to_component_table (FiniteElement_ctor G z d r nzc)
     = map (\<lambda>j. (0, of_nat j)) [0 ..< unat (dofs_per_face d)]"
  "system_to_base_table (FiniteElement_ctor G z d r nzc)
     = map (\<lambda>j. ((0, 0), of_nat j)) [0 ..< unat (dofs_per_cell d)]"
  "face_system_to_base_table (FiniteElement_ctor G z d r nzc)
     = map (\<lambda>j. ((0, 0), of_nat j)) [0 ..< unat (dofs_per_face d)]"
  "component_to_base_table (FiniteElement_ctor G z d r nzc)
     = replicate (unat (components d)) (0, 0)"
  by (simp_all add: FiniteElement_ctor_def)

lemma ctor_data:
  "dim (FiniteElement_ctor G z d r nzc) = dim d"
  "dofs_per_vertex (FiniteElement_ctor G z d r nzc) = dofs_per_vertex d"
  "dofs_per_line (FiniteElement_ctor G z d r nzc) = dofs_per_line d"
  "dofs_per_quad (FiniteElement_ctor G z d r nzc) = dofs_per_quad d"
  "dofs_per_face (FiniteElement_ctor G z d r nzc) = dofs_per_face d"
  "dofs_per_cell (FiniteElement_ctor G z d r nzc) = dofs_per_cell d"
  "components (FiniteElement_ctor G z d r nzc) = components d"
  by (simp_all add: FiniteElement_ctor_def)

lemma ctor_primitivity:
  "nonzero_components (FiniteElement_ctor G z d r nzc) = nzc"
  "restriction_is_additive_flags (FiniteElement_ctor G z d r nzc) = r"
  "n_nonzero_components_table (FiniteElement_ctor G z d r nzc)
     = compute_n_nonzero_components nzc"
  "cached_primitivity (FiniteElement_ctor G z d r nzc)
     = list_all (\<lambda>k. k = 1) (compute_n_nonzero_components nzc)"
  by (simp_all add: FiniteElement_ctor_def)

subsection \<open>The base index queries\<close>

lemma system_to_base_index_in_range:
  "unat i < length (system_to_base_table fe)
     \<Longrightarrow> system_to_base_index fe i = Inr (system_to_base_table fe ! unat i)"
  by (simp add: system_to_base_index_def)

lemma face_system_to_base_index_in_range:
  "unat i < length (face_system_to_base_table fe)
     \<Longrightarrow> face_system_to_base_index fe i = Inr (face_system_to_base_table fe ! unat i)"
  by (simp add: face_system_to_base_index_def)

lemma ctor_system_to_base_index:
  assumes "i < dofs_per_cell d"
  shows "system_to_base_index (FiniteElement_ctor G z d r nzc) i = Inr ((0, 0), i)"
proof -
  have "unat i < unat (dofs_per_cell d)"
    using assms by (simp add: word_less_nat_alt)
  then show ?thesis
    by (simp add: system_to_base_index_def ctor_tables)
qed

lemma ctor_face_system_to_base_index:
  assumes "i < dofs_per_face d"
  shows "face_system_to_base_index (FiniteElement_ctor G z d r nzc) i = Inr ((0, 0), i)"
proof -
  have "unat i < unat (dofs_per_face d)"
    using assms by (simp add: word_less_nat_alt)
  then show ?thesis
    by (simp add: face_system_to_base_index_def ctor_tables)
qed

text \<open>
  Claim C6. \<open>system_to_base_index\<close> and \<open>face_system_to_base_index\<close> return the
  table entry for every index within their table; they do not read the non-zero
  components, so whether the shape function is primitive makes no difference. For the
  element as the constructor leaves it (an element that is not composed of others) the
  entry of an index below \<open>dofs_per_cell\<close>, respectively \<open>dofs_per_face\<close>, is base
  element 0, instance 0 and the index itself.
\<close>

theorem base_index_total:
  "(unat i < length (system_to_base_table fe)
      \<longrightarrow> system_to_base_index fe i = Inr (system_to_base_table fe ! unat i))
   \<and> (unat i < length (face_system_to_base_table fe)
      \<longrightarrow> face_system_to_base_index fe i = Inr (face_system_to_base_table fe ! unat i))
   \<and> system_to_base_index
        (fe\<lparr>nonzero_components := nz, n_nonzero_components_table := t,
            cached_primitivity := b\<rparr>) i
      = system_to_base_index fe i
   \<and> face_system_to_base_index
        (fe\<lparr>nonzero_components := nz, n_nonzero_components_table := t,
            cached_primitivity := b\<rparr>) i
      = face_system_to_base_index fe i
   \<and> (i < dofs_per_cell d
      \<longrightarrow> system_to_base_index (FiniteElement_ctor G z d r nzc) i = Inr ((0, 0), i))
   \<and> (i < dofs_per_face d
      \<longrightarrow> face_system_to_base_index (FiniteElement_ctor G z d r nzc) i = Inr ((0, 0), i))"
proof (intro conjI impI)
  show "system_to_base_index
        (fe\<lparr>nonzero_components := nz, n_nonzero_components_table := t,
            cached_primitivity := b\<rparr>) i
      = system_to_base_index fe i"
    by (simp add: system_to_base_index_def)
  show "face_system_to_base_index
        (fe\<lparr>nonzero_components := nz, n_nonzero_components_table := t,
            cached_primitivity := b\<rparr>) i
      = face_system_to_base_index fe i"
    by (simp add: face_system_to_base_index_def)
qed (simp_all add: system_to_base_index_in_range face_system_to_base_index_in_range
    ctor_system_to_base_index ctor_face_system_to_base_index)

text \<open>
  The base index of a non-primitive shape function of the vector-valued example, and
  the entries of a constructed element.
\<close>

theorem base_index_total_witness:
  "is_primitive fe_rt0 2 = Inr False
   \<and> system_to_base_index fe_rt0 2 = Inr ((0, 0), 2)
   \<and> face_system_to_base_index fe_rt0 0 = Inr ((0, 0), 0)
   \<and> system_to_base_index (FiniteElement_ctor hypercube (0 :: real) q1_data [] []) 3
       = Inr ((0, 0), 3)
   \<and> face_system_to_base_index (FiniteElement_ctor hypercube (0 :: real) q1_data [] []) 1
       = Inr ((0, 0), 1)"
  using base_index_total [where i = 2 and fe = fe_rt0 and nz = "[]" and t = "[]" and b = False
      and d = q1_data and G = hypercube and z = "0 :: real" and r = "[]" and nzc = "[]"]
    base_index_total [where i = 0 and fe = fe_rt0 and nz = "[]" and t = "[]" and b = False
      and d = q1_data and G = hypercube and z = "0 :: real" and r = "[]" and nzc = "[]"]
    base_index_total [where i = 3 and fe = fe_rt0 and nz = "[]" and t = "[]" and b = False
      and d = q1_data and G = hypercube and z = "0 :: real" and r = "[]" and nzc = "[]"]
    base_index_total [where i = 1 and fe = fe_rt0 and nz = "[]" and t = "[]" and b = False
      and d = q1_data and G = hypercube and z = "0 :: real" and r = "[]" and nzc = "[]"]
  by (simp add: is_primitive_False_iff fe_rt0_fields q1_data_def)

subsection \<open>Index ranges\<close>

lemma out_of_range:
  "\<not> i < dofs_per_cell fe
     \<Longrightarrow> get_nonzero_components fe i = Inl (ExcIndexRange (unat i) 0 (unat (dofs_per_cell fe)))"
  "\<not> i < dofs_per_cell fe
     \<Longrightarrow> n_nonzero_components fe i = Inl (ExcIndexRange (unat i) 0 (unat (dofs_per_cell fe)))"
  "\<not> i < dofs_per_cell fe
     \<Longrightarrow> is_primitive fe i = Inl (ExcIndexRange (unat i) 0 (unat (dofs_per_cell fe)))"
  "\<not> i < dofs_per_cell fe
     \<Longrightarrow> restriction_is_additive fe i
           = Inl (ExcIndexRange (unat i) 0 (unat (dofs_per_cell fe)))"
  "\<not> unat i < length (system_to_component_table fe)
     \<Longrightarrow> system_to_component_index fe i
           = Inl (ExcIndexRange (unat i) 0 (length (system_to_component_table fe)))"
  "\<not> unat i < length (face_system_to_component_table fe)
     \<Longrightarrow> face_system_to_component_index G fe i
           = Inl (ExcIndexRange (unat i) 0 (length (face_system_to_component_table fe)))"
  "\<not> unat i < length (system_to_base_table fe)
     \<Longrightarrow> system_to_base_index fe i
           = Inl (ExcIndexRange (unat i) 0 (length (system_to_base_table fe)))"
  "\<not> unat i < length (face_system_to_base_table fe)
     \<Longrightarrow> face_system_to_base_index fe i
           = Inl (ExcIndexRange (unat i) 0 (length (face_system_to_base_table fe)))"
  "\<not> unat i < length (component_to_base_table fe)
     \<Longrightarrow> component_to_base fe i
           = Inl (ExcIndexRange (unat i) 0 (length (component_to_base_table fe)))"
  by (simp_all add: get_nonzero_components_def n_nonzero_components_def is_primitive_def
      restriction_is_additive_def system_to_component_index_def
      face_system_to_component_index_def system_to_base_index_def
      face_system_to_base_index_def component_to_base_def)

lemma vec_at_in_range:
  "i < b \<Longrightarrow> length v = unat b \<Longrightarrow> vec_at v i = Inr (v ! unat i)"
  by (simp add: vec_at_def word_less_nat_alt)

lemma in_range:
  "i < dofs_per_cell fe \<Longrightarrow> length (nonzero_components fe) = unat (dofs_per_cell fe)
     \<Longrightarrow> get_nonzero_components fe i = Inr (nonzero_components fe ! unat i)"
  "i < dofs_per_cell fe \<Longrightarrow> length (n_nonzero_components_table fe) = unat (dofs_per_cell fe)
     \<Longrightarrow> n_nonzero_components fe i = Inr (n_nonzero_components_table fe ! unat i)"
  "i < dofs_per_cell fe \<Longrightarrow> length (n_nonzero_components_table fe) = unat (dofs_per_cell fe)
     \<Longrightarrow> is_primitive fe i = Inr (n_nonzero_components_table fe ! unat i = 1)"
  "i < dofs_per_cell fe
     \<Longrightarrow> length (restriction_is_additive_flags fe) = unat (dofs_per_cell fe)
     \<Longrightarrow> restriction_is_additive fe i = Inr (restriction_is_additive_flags fe ! unat i)"
  "unat i < length (component_to_base_table fe)
     \<Longrightarrow> component_to_base fe i = Inr (component_to_base_table fe ! unat i)"
  by (simp_all add: get_nonzero_components_def n_nonzero_components_def is_primitive_def
      restriction_is_additive_def component_to_base_def vec_at_in_range)

lemma face_index_is_primitive_example:
  "face_index_is_primitive hypercube fe_q1 1 = Inr True"
  by (simp add: face_index_is_primitive_eq face_to_cell_examples is_primitive_True_iff
      fe_q1_fields)

text \<open>
  Claim C9. Each query that takes an index compares it with its bound first:
  \<open>dofs_per_cell\<close> for \<open>get_nonzero_components\<close>, \<open>n_nonzero_components\<close>,
  \<open>is_primitive\<close> and \<open>restriction_is_additive\<close>, the size of its table for the five
  others. An index that is not below the bound gives \<open>ExcIndexRange\<close> with the index
  and the bound, never a value. An index below the bound gives the stored value, for
  the first four when the vector read has \<open>dofs_per_cell\<close> elements, for the two
  component queries when the primitivity check succeeds. The queries are functions of
  the element and the index and return nothing else: they change no state.
\<close>

theorem index_range_checks:
  "(\<not> i < dofs_per_cell fe
      \<longrightarrow> get_nonzero_components fe i = Inl (ExcIndexRange (unat i) 0 (unat (dofs_per_cell fe)))
        \<and> n_nonzero_components fe i = Inl (ExcIndexRange (unat i) 0 (unat (dofs_per_cell fe)))
        \<and> is_primitive fe i = Inl (ExcIndexRange (unat i) 0 (unat (dofs_per_cell fe)))
        \<and> restriction_is_additive fe i
            = Inl (ExcIndexRange (unat i) 0 (unat (dofs_per_cell fe))))
   \<and> (i < dofs_per_cell fe \<and> length (nonzero_components fe) = unat (dofs_per_cell fe)
      \<longrightarrow> get_nonzero_components fe i = Inr (nonzero_components fe ! unat i))
   \<and> (i < dofs_per_cell fe \<and> length (n_nonzero_components_table fe) = unat (dofs_per_cell fe)
      \<longrightarrow> n_nonzero_components fe i = Inr (n_nonzero_components_table fe ! unat i)
        \<and> is_primitive fe i = Inr (n_nonzero_components_table fe ! unat i = 1))
   \<and> (i < dofs_per_cell fe
       \<and> length (restriction_is_additive_flags fe) = unat (dofs_per_cell fe)
      \<longrightarrow> restriction_is_additive fe i = Inr (restriction_is_additive_flags fe ! unat i))
   \<and> (\<not> unat i < length (system_to_component_table fe)
      \<longrightarrow> system_to_component_index fe i
            = Inl (ExcIndexRange (unat i) 0 (length (system_to_component_table fe))))
   \<and> (unat i < length (system_to_component_table fe) \<and> is_primitive fe i = Inr True
      \<longrightarrow> system_to_component_index fe i = Inr (system_to_component_table fe ! unat i))
   \<and> (\<not> unat i < length (face_system_to_component_table fe)
      \<longrightarrow> face_system_to_component_index G fe i
            = Inl (ExcIndexRange (unat i) 0 (length (face_system_to_component_table fe))))
   \<and> (unat i < length (face_system_to_component_table fe)
       \<and> face_index_is_primitive G fe i = Inr True
      \<longrightarrow> face_system_to_component_index G fe i
            = Inr (face_system_to_component_table fe ! unat i))
   \<and> (\<not> unat i < length (system_to_base_table fe)
      \<longrightarrow> system_to_base_index fe i
            = Inl (ExcIndexRange (unat i) 0 (length (system_to_base_table fe))))
   \<and> (unat i < length (system_to_base_table fe)
      \<longrightarrow> system_to_base_index fe i = Inr (system_to_base_table fe ! unat i))
   \<and> (\<not> unat i < length (face_system_to_base_table fe)
      \<longrightarrow> face_system_to_base_index fe i
            = Inl (ExcIndexRange (unat i) 0 (length (face_system_to_base_table fe))))
   \<and> (unat i < length (face_system_to_base_table fe)
      \<longrightarrow> face_system_to_base_index fe i = Inr (face_system_to_base_table fe ! unat i))
   \<and> (\<not> unat i < length (component_to_base_table fe)
      \<longrightarrow> component_to_base fe i
            = Inl (ExcIndexRange (unat i) 0 (length (component_to_base_table fe))))
   \<and> (unat i < length (component_to_base_table fe)
      \<longrightarrow> component_to_base fe i = Inr (component_to_base_table fe ! unat i))"
  by (intro conjI impI)
    (simp_all add: out_of_range in_range system_to_component_index_primitive
      face_system_to_component_index_primitive system_to_base_index_in_range
      face_system_to_base_index_in_range)

text \<open>
  The scalar example has four shape functions, two of them on a face, and one
  component: the index 7 is out of range for every query, the index 1 (0 for
  \<open>component_to_base\<close>) is in range.
\<close>

theorem index_range_checks_witness:
  "get_nonzero_components fe_q1 7 = Inl (ExcIndexRange 7 0 4)
   \<and> n_nonzero_components fe_q1 7 = Inl (ExcIndexRange 7 0 4)
   \<and> is_primitive fe_q1 7 = Inl (ExcIndexRange 7 0 4)
   \<and> restriction_is_additive fe_q1 7 = Inl (ExcIndexRange 7 0 4)
   \<and> system_to_component_index fe_q1 7 = Inl (ExcIndexRange 7 0 4)
   \<and> face_system_to_component_index hypercube fe_q1 7 = Inl (ExcIndexRange 7 0 2)
   \<and> system_to_base_index fe_q1 7 = Inl (ExcIndexRange 7 0 4)
   \<and> face_system_to_base_index fe_q1 7 = Inl (ExcIndexRange 7 0 2)
   \<and> component_to_base fe_q1 7 = Inl (ExcIndexRange 7 0 1)
   \<and> get_nonzero_components fe_q1 1 = Inr [True]
   \<and> n_nonzero_components fe_q1 1 = Inr 1
   \<and> is_primitive fe_q1 1 = Inr True
   \<and> restriction_is_additive fe_q1 1 = Inr False
   \<and> system_to_component_index fe_q1 1 = Inr (0, 1)
   \<and> face_system_to_component_index hypercube fe_q1 1 = Inr (0, 1)
   \<and> system_to_base_index fe_q1 1 = Inr ((0, 0), 1)
   \<and> face_system_to_base_index fe_q1 1 = Inr ((0, 0), 1)
   \<and> component_to_base fe_q1 0 = Inr (0, 0)"
proof -
  note high = index_range_checks [where i = 7 and fe = fe_q1 and G = hypercube]
  note low = index_range_checks [where i = 1 and fe = fe_q1 and G = hypercube]
  note zero = index_range_checks [where i = 0 and fe = fe_q1 and G = hypercube]
  have p: "is_primitive fe_q1 1 = Inr True"
    by (simp add: is_primitive_True_iff fe_q1_fields)
  show ?thesis
    using high low zero p face_index_is_primitive_example
    by (simp add: fe_q1_fields)
qed

subsection \<open>Primitivity of the element\<close>

lemma compute_n_nonzero_components_nth:
  assumes "j < length nzc" and "length (nzc ! j) = unat (c :: uint)"
  shows "unat (compute_n_nonzero_components nzc ! j) = count_list (nzc ! j) True"
proof -
  have "count_list (nzc ! j) True \<le> unat c"
    using count_le_length [of "nzc ! j" True] assms(2) by simp
  then have "unat (of_nat (count_list (nzc ! j) True) :: uint) = count_list (nzc ! j) True"
    by (rule le_unat_uoi)
  then show ?thesis
    using assms(1) by (simp add: compute_n_nonzero_components_def)
qed

lemma cached_primitivity_iff:
  assumes "length (n_nonzero_components_table fe) = unat (dofs_per_cell fe)"
      and "cached_primitivity fe = list_all (\<lambda>k. k = 1) (n_nonzero_components_table fe)"
  shows "is_primitive_fe fe \<longleftrightarrow> (\<forall>i. i < dofs_per_cell fe \<longrightarrow> is_primitive fe i = Inr True)"
proof
  assume "is_primitive_fe fe"
  then have all: "\<forall>j<unat (dofs_per_cell fe). n_nonzero_components_table fe ! j = 1"
    using assms by (simp add: is_primitive_fe_def list_all_length)
  show "\<forall>i. i < dofs_per_cell fe \<longrightarrow> is_primitive fe i = Inr True"
  proof (intro allI impI)
    fix i
    assume "i < dofs_per_cell fe"
    then show "is_primitive fe i = Inr True"
      using all assms(1) by (simp add: is_primitive_True_iff word_less_nat_alt)
  qed
next
  assume prim: "\<forall>i. i < dofs_per_cell fe \<longrightarrow> is_primitive fe i = Inr True"
  have "n_nonzero_components_table fe ! j = 1" if "j < unat (dofs_per_cell fe)" for j
  proof -
    have u: "unat (of_nat j :: uint) = j"
      using that by (intro le_unat_uoi [where z = "dofs_per_cell fe"]) simp
    then have "(of_nat j :: uint) < dofs_per_cell fe"
      using that by (simp add: word_less_nat_alt)
    then have "is_primitive fe (of_nat j) = Inr True"
      using prim by blast
    then show ?thesis
      using u by (simp add: is_primitive_True_iff)
  qed
  then show "is_primitive_fe fe"
    using assms by (simp add: is_primitive_fe_def list_all_length)
qed

text \<open>
  Claim C2. Let the element be constructed from non-zero components that list
  \<open>dofs_per_cell\<close> shape functions, each with one flag for every component. For every
  index \<open>i\<close> below \<open>dofs_per_cell\<close>, \<open>n_nonzero_components\<close> returns the number of
  components set in what \<open>get_nonzero_components\<close> returns, and \<open>is_primitive\<close> returns
  whether that number is 1. The query for the whole element returns true if and only if
  \<open>is_primitive\<close> returns true for every index below \<open>dofs_per_cell\<close>.
\<close>

theorem primitivity_queries_agree:
  assumes "fe = FiniteElement_ctor G z d r nzc"
      and "length nzc = unat (dofs_per_cell d)"
      and "\<forall>v\<in>set nzc. length v = unat (components d)"
  shows "(i < dofs_per_cell fe \<longrightarrow>
           (\<exists>s k. get_nonzero_components fe i = Inr s
                  \<and> n_nonzero_components fe i = Inr k
                  \<and> unat k = count_list s True
                  \<and> is_primitive fe i = Inr (k = 1)))
         \<and> (is_primitive_fe fe \<longleftrightarrow> (\<forall>j. j < dofs_per_cell fe \<longrightarrow> is_primitive fe j = Inr True))"
proof (intro conjI impI)
  have len: "length (n_nonzero_components_table fe) = unat (dofs_per_cell fe)"
    using assms(1,2) by (simp add: ctor_primitivity ctor_data compute_n_nonzero_components_def)
  have len': "length (nonzero_components fe) = unat (dofs_per_cell fe)"
    using assms(1,2) by (simp add: ctor_primitivity ctor_data)
  show "is_primitive_fe fe \<longleftrightarrow> (\<forall>j. j < dofs_per_cell fe \<longrightarrow> is_primitive fe j = Inr True)"
    using len assms(1) by (intro cached_primitivity_iff) (simp_all add: ctor_primitivity)
  assume i: "i < dofs_per_cell fe"
  then have j: "unat i < length nzc"
    using assms(1,2) by (simp add: word_less_nat_alt ctor_data)
  then have "length (nzc ! unat i) = unat (components d)"
    using assms(3) by simp
  with j have "unat (compute_n_nonzero_components nzc ! unat i) = count_list (nzc ! unat i) True"
    by (rule compute_n_nonzero_components_nth)
  then have "unat (n_nonzero_components_table fe ! unat i)
               = count_list (nonzero_components fe ! unat i) True"
    using assms(1) by (simp add: ctor_primitivity)
  then show "\<exists>s k. get_nonzero_components fe i = Inr s
                  \<and> n_nonzero_components fe i = Inr k
                  \<and> unat k = count_list s True
                  \<and> is_primitive fe i = Inr (k = 1)"
    using i len len' by (simp add: in_range)
qed

text \<open>
  Both directions on the examples: no shape function of the vector-valued element is
  primitive, every shape function of the scalar element is.
\<close>

theorem primitivity_queries_agree_witness:
  "get_nonzero_components fe_rt0 3 = Inr [True, True]
   \<and> n_nonzero_components fe_rt0 3 = Inr 2
   \<and> is_primitive fe_rt0 3 = Inr False
   \<and> \<not> is_primitive_fe fe_rt0
   \<and> get_nonzero_components fe_q1 3 = Inr [True]
   \<and> n_nonzero_components fe_q1 3 = Inr 1
   \<and> is_primitive fe_q1 3 = Inr True
   \<and> is_primitive_fe fe_q1"
proof -
  have rt: "\<forall>v\<in>set (replicate 4 [True, True]). length v = unat (components rt0_data)"
    and q: "\<forall>v\<in>set (replicate 4 [True]). length v = unat (components q1_data)"
    by (simp_all add: rt0_data_def q1_data_def)
  have lrt: "length (replicate 4 [True, True]) = unat (dofs_per_cell rt0_data)"
    and lq: "length (replicate 4 [True]) = unat (dofs_per_cell q1_data)"
    by (simp_all add: rt0_data_def q1_data_def)
  note a = primitivity_queries_agree [OF fe_rt0_def lrt rt, of 3]
  note b = primitivity_queries_agree [OF fe_q1_def lq q, of 3]
  have "is_primitive fe_rt0 0 = Inr False" and "0 < dofs_per_cell fe_rt0"
    by (simp_all add: is_primitive_False_iff fe_rt0_fields)
  then have "\<not> is_primitive_fe fe_rt0"
    using a [THEN conjunct2] by auto
  moreover have "is_primitive_fe fe_q1"
    by (simp add: is_primitive_fe_def fe_q1_fields)
  ultimately show ?thesis
    using b by (simp add: in_range fe_rt0_fields fe_q1_fields)
qed

subsection \<open>From a face index to a cell index\<close>

lemma unat_product:
  "unat a * unat b < 2 ^ 32 \<Longrightarrow> unat (a * b :: uint) = unat a * unat b"
  using unat_mult_lem [of a b] by simp

lemma unat_sum:
  "unat a + unat b < 2 ^ 32 \<Longrightarrow> unat (a + b :: uint) = unat a + unat b"
  using unat_add_lem [of a b] by simp

lemma unat_offset:
  fixes index p base :: uint
  assumes "unat p \<le> unat index" and "unat base + (unat index - unat p) < 2 ^ 32"
  shows "unat (base + (index - p)) = unat base + (unat index - unat p)"
proof -
  have "p \<le> index"
    using assms(1) by (simp add: word_le_nat_alt)
  then have "unat (index - p) = unat index - unat p"
    by (rule unat_sub)
  then show ?thesis
    using assms(2) by (simp add: unat_sum)
qed

lemma face_to_cell_index_2d_vertex:
  assumes "unat (vertices_per_face (G 2)) * unat (dofs_per_vertex fe) < 2 ^ 32"
      and "unat index < unat (vertices_per_face (G 2)) * unat (dofs_per_vertex fe)"
  shows "face_to_cell_index_2d G fe index = index"
  using assms by (simp add: face_to_cell_index_2d_def word_less_nat_alt unat_product)

lemma face_to_cell_index_2d_line:
  assumes "unat (vertices_per_face (G 2)) * unat (dofs_per_vertex fe) \<le> unat index"
      and "unat (vertices_per_cell (G 2)) * unat (dofs_per_vertex fe)
           + (unat index - unat (vertices_per_face (G 2)) * unat (dofs_per_vertex fe)) < 2 ^ 32"
  shows "unat (face_to_cell_index_2d G fe index)
         = unat (vertices_per_cell (G 2)) * unat (dofs_per_vertex fe)
           + (unat index - unat (vertices_per_face (G 2)) * unat (dofs_per_vertex fe))"
proof -
  have "unat index < 2 ^ 32"
    using unsigned_less [of index] by simp
  then have p: "unat (vertices_per_face (G 2) * dofs_per_vertex fe)
           = unat (vertices_per_face (G 2)) * unat (dofs_per_vertex fe)"
    using assms(1) by (intro unat_product) simp
  have b: "unat (vertices_per_cell (G 2) * dofs_per_vertex fe)
           = unat (vertices_per_cell (G 2)) * unat (dofs_per_vertex fe)"
    using assms(2) by (intro unat_product) simp
  have "\<not> index < vertices_per_face (G 2) * dofs_per_vertex fe"
    using assms(1) p by (simp add: word_less_nat_alt)
  moreover have "unat (vertices_per_cell (G 2) * dofs_per_vertex fe
                       + (index - vertices_per_face (G 2) * dofs_per_vertex fe))
                 = unat (vertices_per_cell (G 2) * dofs_per_vertex fe)
                   + (unat index - unat (vertices_per_face (G 2) * dofs_per_vertex fe))"
    using assms p b by (intro unat_offset) simp_all
  ultimately show ?thesis
    using p b by (simp add: face_to_cell_index_2d_def)
qed

lemma face_to_cell_index_3d_vertex:
  assumes "unat (vertices_per_face (G 3)) * unat (dofs_per_vertex fe) < 2 ^ 32"
      and "unat index < unat (vertices_per_face (G 3)) * unat (dofs_per_vertex fe)"
  shows "face_to_cell_index_3d G fe index = index"
  using assms by (simp add: face_to_cell_index_3d_def word_less_nat_alt unat_product)

lemma face_to_cell_index_3d_line:
  assumes "unat (vertices_per_face (G 3)) * unat (dofs_per_vertex fe)
           + unat (lines_per_face (G 3)) * unat (dofs_per_line fe) < 2 ^ 32"
      and "unat (vertices_per_face (G 3)) * unat (dofs_per_vertex fe) \<le> unat index"
      and "unat index < unat (vertices_per_face (G 3)) * unat (dofs_per_vertex fe)
                        + unat (lines_per_face (G 3)) * unat (dofs_per_line fe)"
      and "unat (vertices_per_cell (G 3)) * unat (dofs_per_vertex fe)
           + (unat index - unat (vertices_per_face (G 3)) * unat (dofs_per_vertex fe)) < 2 ^ 32"
  shows "unat (face_to_cell_index_3d G fe index)
         = unat (vertices_per_cell (G 3)) * unat (dofs_per_vertex fe)
           + (unat index - unat (vertices_per_face (G 3)) * unat (dofs_per_vertex fe))"
proof -
  have p: "unat (vertices_per_face (G 3) * dofs_per_vertex fe)
           = unat (vertices_per_face (G 3)) * unat (dofs_per_vertex fe)"
    using assms(1) by (intro unat_product) simp
  have q: "unat (lines_per_face (G 3) * dofs_per_line fe)
           = unat (lines_per_face (G 3)) * unat (dofs_per_line fe)"
    using assms(1) by (intro unat_product) simp
  have pq: "unat (vertices_per_face (G 3) * dofs_per_vertex fe
                  + lines_per_face (G 3) * dofs_per_line fe)
           = unat (vertices_per_face (G 3)) * unat (dofs_per_vertex fe)
             + unat (lines_per_face (G 3)) * unat (dofs_per_line fe)"
    using assms(1) p q by (simp add: unat_sum)
  have b: "unat (vertices_per_cell (G 3) * dofs_per_vertex fe)
           = unat (vertices_per_cell (G 3)) * unat (dofs_per_vertex fe)"
    using assms(4) by (intro unat_product) simp
  have "\<not> index < vertices_per_face (G 3) * dofs_per_vertex fe"
    using assms(2) p by (simp add: word_less_nat_alt)
  moreover have "index < vertices_per_face (G 3) * dofs_per_vertex fe
                         + lines_per_face (G 3) * dofs_per_line fe"
    using assms(3) pq by (simp add: word_less_nat_alt)
  moreover have "unat (vertices_per_cell (G 3) * dofs_per_vertex fe
                       + (index - vertices_per_face (G 3) * dofs_per_vertex fe))
                 = unat (vertices_per_cell (G 3) * dofs_per_vertex fe)
                   + (unat index - unat (vertices_per_face (G 3) * dofs_per_vertex fe))"
    using assms(2,4) p b by (intro unat_offset) simp_all
  ultimately show ?thesis
    using p b by (simp add: face_to_cell_index_3d_def)
qed

lemma face_to_cell_index_3d_quad:
  assumes "unat (vertices_per_face (G 3)) * unat (dofs_per_vertex fe)
           + unat (lines_per_face (G 3)) * unat (dofs_per_line fe) \<le> unat index"
      and "unat (vertices_per_cell (G 3)) * unat (dofs_per_vertex fe)
           + unat (lines_per_cell (G 3)) * unat (dofs_per_line fe)
           + (unat index - unat (vertices_per_face (G 3)) * unat (dofs_per_vertex fe)
                         - unat (lines_per_face (G 3)) * unat (dofs_per_line fe)) < 2 ^ 32"
  shows "unat (face_to_cell_index_3d G fe index)
         = unat (vertices_per_cell (G 3)) * unat (dofs_per_vertex fe)
           + unat (lines_per_cell (G 3)) * unat (dofs_per_line fe)
           + (unat index - unat (vertices_per_face (G 3)) * unat (dofs_per_vertex fe)
                         - unat (lines_per_face (G 3)) * unat (dofs_per_line fe))"
proof -
  have i: "unat index < 2 ^ 32"
    using unsigned_less [of index] by simp
  have p: "unat (vertices_per_face (G 3) * dofs_per_vertex fe)
           = unat (vertices_per_face (G 3)) * unat (dofs_per_vertex fe)"
    using assms(1) i by (intro unat_product) simp
  have q: "unat (lines_per_face (G 3) * dofs_per_line fe)
           = unat (lines_per_face (G 3)) * unat (dofs_per_line fe)"
    using assms(1) i by (intro unat_product) simp
  have pq: "unat (vertices_per_face (G 3) * dofs_per_vertex fe
                  + lines_per_face (G 3) * dofs_per_line fe)
           = unat (vertices_per_face (G 3)) * unat (dofs_per_vertex fe)
             + unat (lines_per_face (G 3)) * unat (dofs_per_line fe)"
    using assms(1) i p q by (simp add: unat_sum)
  have b: "unat (vertices_per_cell (G 3) * dofs_per_vertex fe)
           = unat (vertices_per_cell (G 3)) * unat (dofs_per_vertex fe)"
    using assms(2) by (intro unat_product) simp
  have c: "unat (lines_per_cell (G 3) * dofs_per_line fe)
           = unat (lines_per_cell (G 3)) * unat (dofs_per_line fe)"
    using assms(2) by (intro unat_product) simp
  have bc: "unat (vertices_per_cell (G 3) * dofs_per_vertex fe
                  + lines_per_cell (G 3) * dofs_per_line fe)
           = unat (vertices_per_cell (G 3)) * unat (dofs_per_vertex fe)
             + unat (lines_per_cell (G 3)) * unat (dofs_per_line fe)"
    using assms(2) b c by (simp add: unat_sum)
  have n1: "\<not> index < vertices_per_face (G 3) * dofs_per_vertex fe"
    using assms(1) p by (simp add: word_less_nat_alt)
  have n2: "\<not> index < vertices_per_face (G 3) * dofs_per_vertex fe
                         + lines_per_face (G 3) * dofs_per_line fe"
    using assms(1) pq by (simp add: word_less_nat_alt)
  have rearrange: "index - vertices_per_face (G 3) * dofs_per_vertex fe
                         - lines_per_face (G 3) * dofs_per_line fe
                   = index - (vertices_per_face (G 3) * dofs_per_vertex fe
                              + lines_per_face (G 3) * dofs_per_line fe)"
    by simp
  have "unat (vertices_per_cell (G 3) * dofs_per_vertex fe
              + lines_per_cell (G 3) * dofs_per_line fe
              + (index - (vertices_per_face (G 3) * dofs_per_vertex fe
                          + lines_per_face (G 3) * dofs_per_line fe)))
        = unat (vertices_per_cell (G 3) * dofs_per_vertex fe
                + lines_per_cell (G 3) * dofs_per_line fe)
          + (unat index - unat (vertices_per_face (G 3) * dofs_per_vertex fe
                                + lines_per_face (G 3) * dofs_per_line fe))"
    using assms pq bc by (intro unat_offset) simp_all
  then show ?thesis
    using n1 n2 pq bc by (simp add: face_to_cell_index_3d_def rearrange)
qed

lemma hypercube_3:
  "vertices_per_cell (hypercube 3) = 8" "vertices_per_face (hypercube 3) = 4"
  "lines_per_cell (hypercube 3) = 12" "lines_per_face (hypercube 3) = 4"
  "children_per_cell (hypercube 3) = 8"
  by (simp_all add: hypercube_def)

text \<open>
  Claim C5. The cell index that \<open>face_system_to_component_index\<close> inspects for a face
  index depends on the dimension, on \<open>dofs_per_vertex\<close> and on \<open>dofs_per_line\<close> only.
  Write \<open>vf\<close>, \<open>lf\<close>, \<open>vc\<close>, \<open>lc\<close> for the vertices and lines of a face and of a
  cell, \<open>dv\<close> and \<open>dl\<close> for the degrees of freedom on a vertex and on a line. In one
  dimension the cell index is the face index. In two dimensions a face index below
  \<open>vf * dv\<close> is kept, and any other one is moved behind the \<open>vc * dv\<close> vertex degrees
  of freedom of the cell, by its offset from \<open>vf * dv\<close>. In three dimensions a face
  index below \<open>vf * dv\<close> is kept, one below \<open>vf * dv + lf * dl\<close> is moved behind the
  vertex degrees of freedom of the cell, and any other one behind the vertex and the
  \<open>lc * dl\<close> line degrees of freedom of the cell. The sums are those of natural
  numbers as long as they fit into an \<open>unsigned int\<close>.
\<close>

theorem face_to_cell_index_blocks:
  fixes G :: "nat \<Rightarrow> GeometryInfo"
    and fe :: "('v, 'z) FiniteElement_scheme"
    and fe' :: "'y FiniteElementData_scheme"
    and index :: uint
  defines "dv \<equiv> unat (dofs_per_vertex fe)"
      and "dl \<equiv> unat (dofs_per_line fe)"
      and "vf \<equiv> unat (vertices_per_face (G (dim fe)))"
      and "lf \<equiv> unat (lines_per_face (G (dim fe)))"
      and "vc \<equiv> unat (vertices_per_cell (G (dim fe)))"
      and "lc \<equiv> unat (lines_per_cell (G (dim fe)))"
  shows "(dim fe = 1 \<longrightarrow> face_to_cell_index G fe index = index)
     \<and> (dim fe = 2 \<and> vf * dv < 2 ^ 32 \<and> unat index < vf * dv
          \<longrightarrow> face_to_cell_index G fe index = index)
     \<and> (dim fe = 2 \<and> vf * dv \<le> unat index \<and> vc * dv + (unat index - vf * dv) < 2 ^ 32
          \<longrightarrow> unat (face_to_cell_index G fe index) = vc * dv + (unat index - vf * dv))
     \<and> (dim fe = 3 \<and> vf * dv < 2 ^ 32 \<and> unat index < vf * dv
          \<longrightarrow> face_to_cell_index G fe index = index)
     \<and> (dim fe = 3 \<and> vf * dv + lf * dl < 2 ^ 32
         \<and> vf * dv \<le> unat index \<and> unat index < vf * dv + lf * dl
         \<and> vc * dv + (unat index - vf * dv) < 2 ^ 32
          \<longrightarrow> unat (face_to_cell_index G fe index) = vc * dv + (unat index - vf * dv))
     \<and> (dim fe = 3 \<and> vf * dv + lf * dl \<le> unat index
         \<and> vc * dv + lc * dl + (unat index - vf * dv - lf * dl) < 2 ^ 32
          \<longrightarrow> unat (face_to_cell_index G fe index)
                = vc * dv + lc * dl + (unat index - vf * dv - lf * dl))
     \<and> (dim fe = 1 \<or> dim fe = 2 \<or> dim fe = 3
          \<longrightarrow> face_index_is_primitive G fe index
                = is_primitive fe (face_to_cell_index G fe index))
     \<and> (dim fe' = dim fe \<and> dofs_per_vertex fe' = dofs_per_vertex fe
         \<and> dofs_per_line fe' = dofs_per_line fe
          \<longrightarrow> face_to_cell_index G fe' index = face_to_cell_index G fe index)"
proof (intro conjI impI; (elim conjE)?)
  show "face_to_cell_index G fe index = index" if "dim fe = 1"
    using that by (simp add: face_to_cell_index_def)
  show "face_to_cell_index G fe index = index"
    if "dim fe = 2" "vf * dv < 2 ^ 32" "unat index < vf * dv"
    using that unfolding vf_def dv_def
    by (simp add: face_to_cell_index_def face_to_cell_index_2d_vertex)
  show "unat (face_to_cell_index G fe index) = vc * dv + (unat index - vf * dv)"
    if "dim fe = 2" "vf * dv \<le> unat index" "vc * dv + (unat index - vf * dv) < 2 ^ 32"
    using that unfolding vf_def dv_def vc_def
    by (simp add: face_to_cell_index_def face_to_cell_index_2d_line)
  show "face_to_cell_index G fe index = index"
    if "dim fe = 3" "vf * dv < 2 ^ 32" "unat index < vf * dv"
    using that unfolding vf_def dv_def
    by (simp add: face_to_cell_index_def face_to_cell_index_3d_vertex)
  show "unat (face_to_cell_index G fe index) = vc * dv + (unat index - vf * dv)"
    if "dim fe = 3" "vf * dv + lf * dl < 2 ^ 32" "vf * dv \<le> unat index"
      "unat index < vf * dv + lf * dl" "vc * dv + (unat index - vf * dv) < 2 ^ 32"
    using that unfolding vf_def dv_def vc_def lf_def dl_def
    by (simp add: face_to_cell_index_def face_to_cell_index_3d_line)
  show "unat (face_to_cell_index G fe index)
          = vc * dv + lc * dl + (unat index - vf * dv - lf * dl)"
    if "dim fe = 3" "vf * dv + lf * dl \<le> unat index"
      "vc * dv + lc * dl + (unat index - vf * dv - lf * dl) < 2 ^ 32"
    using that unfolding vf_def dv_def vc_def lf_def dl_def lc_def
    by (simp add: face_to_cell_index_def face_to_cell_index_3d_quad)
  show "face_index_is_primitive G fe index = is_primitive fe (face_to_cell_index G fe index)"
    if "dim fe = 1 \<or> dim fe = 2 \<or> dim fe = 3"
    using that by (rule face_index_is_primitive_eq)
  show "face_to_cell_index G fe' index = face_to_cell_index G fe index"
    if "dim fe' = dim fe" "dofs_per_vertex fe' = dofs_per_vertex fe"
      "dofs_per_line fe' = dofs_per_line fe"
    using that
    by (simp add: face_to_cell_index_def face_to_cell_index_2d_def face_to_cell_index_3d_def)
qed

text \<open>
  On the reference square a face has 2 vertices and the cell 4; on the reference cube a
  face has 4 vertices and 4 lines and the cell 8 vertices and 12 lines. With one degree
  of freedom on each vertex, line and quad, the face indices 1 and 2 of the square
  become the cell indices 1 and 4, the face indices 3, 5 and 8 of the cube the cell
  indices 3, 9 and 20.
\<close>

theorem face_to_cell_index_blocks_witness:
  "face_to_cell_index hypercube (q2_data_2d\<lparr>dim := 1\<rparr>) 1 = 1
   \<and> face_to_cell_index hypercube q2_data_2d 1 = 1
   \<and> unat (face_to_cell_index hypercube q2_data_2d 2) = 4
   \<and> face_to_cell_index hypercube q2_data_3d 3 = 3
   \<and> unat (face_to_cell_index hypercube q2_data_3d 5) = 9
   \<and> unat (face_to_cell_index hypercube q2_data_3d 8) = 20
   \<and> face_index_is_primitive hypercube fe_q1 1 = is_primitive fe_q1 1"
proof -
  let ?e1 = "FiniteElement_ctor hypercube (0 :: real) (q2_data_2d\<lparr>dim := 1\<rparr>) [] []"
  let ?e2 = "FiniteElement_ctor hypercube (0 :: real) q2_data_2d [] []"
  let ?e3 = "FiniteElement_ctor hypercube (0 :: real) q2_data_3d [] []"
  have d1: "face_to_cell_index hypercube (q2_data_2d\<lparr>dim := 1\<rparr>) 1 = 1"
    using face_to_cell_index_blocks [where fe = ?e1 and fe' = "q2_data_2d\<lparr>dim := 1\<rparr>"
        and G = hypercube and index = 1]
    by (simp add: ctor_data)
  have d2v: "face_to_cell_index hypercube q2_data_2d 1 = 1"
    using face_to_cell_index_blocks [where fe = ?e2 and fe' = q2_data_2d
        and G = hypercube and index = 1]
    by (simp add: ctor_data q2_data_2d_def hypercube_2)
  have d2l: "unat (face_to_cell_index hypercube q2_data_2d 2) = 4"
    using face_to_cell_index_blocks [where fe = ?e2 and fe' = q2_data_2d
        and G = hypercube and index = 2]
    by (simp add: ctor_data q2_data_2d_def hypercube_2)
  have d3v: "face_to_cell_index hypercube q2_data_3d 3 = 3"
    using face_to_cell_index_blocks [where fe = ?e3 and fe' = q2_data_3d
        and G = hypercube and index = 3]
    by (simp add: ctor_data q2_data_3d_def hypercube_3)
  have d3l: "unat (face_to_cell_index hypercube q2_data_3d 5) = 9"
    using face_to_cell_index_blocks [where fe = ?e3 and fe' = q2_data_3d
        and G = hypercube and index = 5]
    by (simp add: ctor_data q2_data_3d_def hypercube_3)
  have d3q: "unat (face_to_cell_index hypercube q2_data_3d 8) = 20"
    using face_to_cell_index_blocks [where fe = ?e3 and fe' = q2_data_3d
        and G = hypercube and index = 8]
    by (simp add: ctor_data q2_data_3d_def hypercube_3)
  have p: "face_index_is_primitive hypercube fe_q1 1 = is_primitive fe_q1 1"
    using face_to_cell_index_blocks [where fe = fe_q1 and fe' = q1_data
        and G = hypercube and index = 1]
    by (simp add: fe_q1_fields hypercube_2)
  from d1 d2v d2l d3v d3l d3q p show ?thesis
    by simp
qed

subsection \<open>Access to the transfer and constraint matrices\<close>

lemma fe_q1_matrices:
  "restriction fe_q1 = replicate 4 (FullMatrix_reinit 0 4 4)"
  "prolongation fe_q1 = replicate 4 (FullMatrix_reinit 0 4 4)"
  by (simp_all add: fe_q1_def FiniteElement_ctor_def q1_data_def hypercube_def)

lemma FullMatrix_empty_reinit:
  "FullMatrix_empty (FullMatrix_reinit z r c) \<longleftrightarrow> r = 0 \<or> c = 0"
  by (simp add: FullMatrix_empty_def FullMatrix_reinit_def)

text \<open>
  Claim C7. For a child index within the array, \<open>get_restriction_matrix\<close> fails with
  \<open>ExcProjectionVoid\<close> exactly when the stored matrix of that child is zero-sized, and
  returns the stored matrix exactly when it is not; \<open>restriction_is_implemented\<close> is
  false exactly when the matrix of some child is zero-sized, so that after a true
  answer the accessor returns the stored matrix for every child. The same holds for
  \<open>get_prolongation_matrix\<close> with \<open>ExcEmbeddingVoid\<close> and
  \<open>prolongation_is_implemented\<close>, and for \<open>constraints\<close> with \<open>ExcConstraintsVoid\<close>
  and \<open>constraints_are_implemented\<close> on the one constraint matrix.
\<close>

theorem transfer_matrix_access:
  "(unat c < length (restriction fe)
      \<longrightarrow> (get_restriction_matrix fe c = Inl ExcProjectionVoid
             \<longleftrightarrow> FullMatrix_empty (restriction fe ! unat c))
        \<and> (get_restriction_matrix fe c = Inr (restriction fe ! unat c)
             \<longleftrightarrow> \<not> FullMatrix_empty (restriction fe ! unat c)))
   \<and> (restriction_is_implemented fe
        \<longleftrightarrow> \<not> (\<exists>j<length (restriction fe). FullMatrix_empty (restriction fe ! j)))
   \<and> (restriction_is_implemented fe \<and> unat c < length (restriction fe)
      \<longrightarrow> get_restriction_matrix fe c = Inr (restriction fe ! unat c))
   \<and> (unat c < length (prolongation fe)
      \<longrightarrow> (get_prolongation_matrix fe c = Inl ExcEmbeddingVoid
             \<longleftrightarrow> FullMatrix_empty (prolongation fe ! unat c))
        \<and> (get_prolongation_matrix fe c = Inr (prolongation fe ! unat c)
             \<longleftrightarrow> \<not> FullMatrix_empty (prolongation fe ! unat c)))
   \<and> (prolongation_is_implemented fe
        \<longleftrightarrow> \<not> (\<exists>j<length (prolongation fe). FullMatrix_empty (prolongation fe ! j)))
   \<and> (prolongation_is_implemented fe \<and> unat c < length (prolongation fe)
      \<longrightarrow> get_prolongation_matrix fe c = Inr (prolongation fe ! unat c))
   \<and> (constraints fe = Inl ExcConstraintsVoid
        \<longleftrightarrow> FullMatrix_empty (interface_constraints fe))
   \<and> (constraints fe = Inr (interface_constraints fe)
        \<longleftrightarrow> \<not> FullMatrix_empty (interface_constraints fe))
   \<and> (constraints_are_implemented fe \<longleftrightarrow> \<not> FullMatrix_empty (interface_constraints fe))"
  by (intro conjI impI)
    (auto simp add: get_restriction_matrix_def get_prolongation_matrix_def constraints_def
      restriction_is_implemented_def prolongation_is_implemented_def
      constraints_are_implemented_def list_all_length)

text \<open>
  The scalar example with its matrices at full size, and after its restriction
  matrices have been resized to zero.
\<close>

theorem transfer_matrix_access_witness:
  "get_restriction_matrix fe_q1 1 = Inr (FullMatrix_reinit 0 4 4)
   \<and> restriction_is_implemented fe_q1
   \<and> get_restriction_matrix fe_q1_no_restriction 1 = Inl ExcProjectionVoid
   \<and> \<not> restriction_is_implemented fe_q1_no_restriction
   \<and> get_prolongation_matrix fe_q1_no_restriction 1 = Inr (FullMatrix_reinit 0 4 4)
   \<and> prolongation_is_implemented fe_q1_no_restriction
   \<and> constraints fe_q1 = Inr \<lparr>n_rows = 1, n_cols = 2, entries = [0, 0]\<rparr>
   \<and> constraints_are_implemented fe_q1"
proof -
  note a = transfer_matrix_access [where fe = fe_q1 and c = 1]
  note b = transfer_matrix_access [where fe = fe_q1_no_restriction and c = 1]
  have full: "\<not> FullMatrix_empty (FullMatrix_reinit (0 :: real) 4 4)"
    and none: "FullMatrix_empty (FullMatrix_reinit (0 :: real) 0 0)"
    by (simp_all add: FullMatrix_empty_reinit)
  have r: "restriction fe_q1_no_restriction = replicate 4 (FullMatrix_reinit 0 0 0)"
    and p: "prolongation fe_q1_no_restriction = replicate 4 (FullMatrix_reinit 0 4 4)"
    by (simp_all add: fe_q1_no_restriction_def fe_q1_matrices)
  have c: "\<not> FullMatrix_empty (interface_constraints fe_q1)"
    by (simp add: fe_q1_fields FullMatrix_empty_def)
  have "get_restriction_matrix fe_q1 1 = Inr (FullMatrix_reinit 0 4 4)"
    and "restriction_is_implemented fe_q1"
    using a full by (simp_all add: fe_q1_matrices)
  moreover have "get_restriction_matrix fe_q1_no_restriction 1 = Inl ExcProjectionVoid"
    using b none by (simp add: r)
  moreover have "\<not> restriction_is_implemented fe_q1_no_restriction"
    using b none by (auto simp add: r intro: exI [of _ 0])
  moreover have "get_prolongation_matrix fe_q1_no_restriction 1 = Inr (FullMatrix_reinit 0 4 4)"
    and "prolongation_is_implemented fe_q1_no_restriction"
    using b full by (simp_all add: p)
  moreover have "constraints fe_q1 = Inr \<lparr>n_rows = 1, n_cols = 2, entries = [0, 0]\<rparr>"
    and "constraints_are_implemented fe_q1"
    using a c by (simp_all add: fe_q1_fields)
  ultimately show ?thesis
    by simp
qed

subsection \<open>The size of the constraint matrix\<close>

text \<open>
  Claim C8. \<open>interface_constraints_size\<close> reads the dimension and the degrees of
  freedom per vertex, line and quad only; in particular the stored matrix does not
  matter. In one dimension the size is 0 by 0. In two dimensions the rows are
  \<open>dofs_per_vertex + 2 * dofs_per_line\<close> and the columns
  \<open>2 * dofs_per_vertex + dofs_per_line\<close>; with one degree of freedom on each vertex
  and none on a line that is 1 by 2, which is also the size of the matrix that the
  constructor allocates.
\<close>

theorem interface_constraints_size_by_counts:
  "(dim fe = 1 \<longrightarrow> interface_constraints_size fe = Some (0, 0))
   \<and> (dim fe = 2
      \<longrightarrow> interface_constraints_size fe
            = Some (dofs_per_vertex fe + 2 * dofs_per_line fe,
                    2 * dofs_per_vertex fe + dofs_per_line fe))
   \<and> (dim fe' = dim fe \<and> dofs_per_vertex fe' = dofs_per_vertex fe
       \<and> dofs_per_line fe' = dofs_per_line fe \<and> dofs_per_quad fe' = dofs_per_quad fe
      \<longrightarrow> interface_constraints_size fe' = interface_constraints_size fe)
   \<and> interface_constraints_size (el\<lparr>interface_constraints := M\<rparr>)
       = interface_constraints_size el
   \<and> (dim fe = 2 \<and> dofs_per_vertex fe = 1 \<and> dofs_per_line fe = 0
      \<longrightarrow> interface_constraints_size fe = Some (1, 2))
   \<and> (dim d = 2 \<and> dofs_per_vertex d = 1 \<and> dofs_per_line d = 0
      \<longrightarrow> n_rows (interface_constraints (FiniteElement_ctor G z d r nzc)) = 1
        \<and> n_cols (interface_constraints (FiniteElement_ctor G z d r nzc)) = 2)"
  by (intro conjI impI)
    (simp_all add: interface_constraints_size_def FiniteElement_ctor_def FullMatrix_reinit_def)

theorem interface_constraints_size_by_counts_witness:
  "interface_constraints_size (q1_data\<lparr>dim := 1\<rparr>) = Some (0, 0)
   \<and> interface_constraints_size q2_data_2d = Some (3, 3)
   \<and> interface_constraints_size q1_data = Some (1, 2)
   \<and> interface_constraints_size fe_q1 = Some (1, 2)
   \<and> interface_constraints_size (fe_q1\<lparr>interface_constraints := FullMatrix_reinit 0 0 0\<rparr>)
       = Some (1, 2)
   \<and> n_rows (interface_constraints fe_q1) = 1
   \<and> n_cols (interface_constraints fe_q1) = 2"
  using interface_constraints_size_by_counts [where fe = "q1_data\<lparr>dim := 1\<rparr>"
      and fe' = q1_data and el = fe_q1 and M = "FullMatrix_reinit 0 0 0" and d = q1_data
      and G = hypercube and z = "0 :: real" and r = "replicate 4 False"
      and nzc = "replicate 4 [True]"]
    interface_constraints_size_by_counts [where fe = q2_data_2d
      and fe' = q1_data and el = fe_q1 and M = "FullMatrix_reinit 0 0 0" and d = q1_data
      and G = hypercube and z = "0 :: real" and r = "replicate 4 False"
      and nzc = "replicate 4 [True]"]
    interface_constraints_size_by_counts [where fe = q1_data
      and fe' = fe_q1 and el = fe_q1 and M = "FullMatrix_reinit 0 0 0" and d = q1_data
      and G = hypercube and z = "0 :: real" and r = "replicate 4 False"
      and nzc = "replicate 4 [True]"]
  by (simp add: fe_q1_fields q1_data_def q2_data_2d_def)

subsection \<open>Comparison of two elements\<close>

text \<open>
  Claim C10. The comparison of two elements does not read \<open>restriction\<close> and
  \<open>prolongation\<close>: replacing them on either side does not change its result. It does
  read the constraint matrix. The scalar example and the same element with its
  restriction matrices resized to zero differ in \<open>restriction\<close> only, and compare equal;
  the scalar example with an empty constraint matrix does not compare equal to it.
\<close>

theorem equality_ignores_transfer_matrices:
  "FiniteElement_equal eqv (a\<lparr>restriction := R, prolongation := P\<rparr>)
       (b\<lparr>restriction := R', prolongation := P'\<rparr>)
     = FiniteElement_equal eqv a b
   \<and> FiniteElement_equal eqv (a\<lparr>interface_constraints := M\<rparr>) b
     = (FiniteElementData_equal a b \<and> FullMatrix_equal eqv M (interface_constraints b))
   \<and> fe_q1_no_restriction = fe_q1\<lparr>restriction := replicate 4 (FullMatrix_reinit 0 0 0)\<rparr>
   \<and> restriction fe_q1_no_restriction \<noteq> restriction fe_q1
   \<and> FiniteElement_equal (=) fe_q1_no_restriction fe_q1
   \<and> \<not> FiniteElement_equal (=) (fe_q1\<lparr>interface_constraints := FullMatrix_reinit 0 0 0\<rparr>) fe_q1"
proof (intro conjI)
  show "restriction fe_q1_no_restriction \<noteq> restriction fe_q1"
    by (simp add: fe_q1_no_restriction_def fe_q1_matrices FullMatrix_reinit_def)
  show "FiniteElement_equal (=) fe_q1_no_restriction fe_q1"
    by (simp add: FiniteElement_equal_def FiniteElementData_equal_def FullMatrix_equal_def
        fe_q1_no_restriction_def list.rel_eq)
  show "\<not> FiniteElement_equal (=) (fe_q1\<lparr>interface_constraints := FullMatrix_reinit 0 0 0\<rparr>) fe_q1"
    by (simp add: FiniteElement_equal_def FullMatrix_equal_def FullMatrix_reinit_def
        fe_q1_fields)
qed (simp_all add: FiniteElement_equal_def FiniteElementData_equal_def fe_q1_no_restriction_def)

subsection \<open>The round trip through the component table\<close>





end
